theory Spec2Isabelle
  imports Main
begin

section \<open>The streaming image pipeline of the DICOM server (src/main.go)\<close>

text \<open>
  The handler of \<^verbatim>\<open>GET /:id/image\<close> starts three goroutines in one
  \<^verbatim>\<open>errgroup\<close>: the producer (\<^verbatim>\<open>dicom.ParseUntilEOF(file, framechan)\<close>), the
  consumer (one receive, then \<^verbatim>\<open>GetImage\<close>, \<^verbatim>\<open>png.Encode\<close>,
  \<^verbatim>\<open>DataFromReader\<close>) and, started by the consumer, the drain loop. The goroutines
  are modelled as program counters in one state, and the scheduler as a list of labels:
  each label is one atomic action of one goroutine (or of the environment).
\<close>

subsection \<open>Values and errors\<close>

type_synonym frame = nat
type_synonym image = nat
type_synonym bytes = "nat list"

text \<open>
  \<^verbatim>\<open>type StatusError struct { internal error; status int }\<close>; every other error of
  the program is opaque to it (\<^verbatim>\<open>errors.New\<close>, the errors of the parser and of the
  codec), apart from the two errors a context reports.
\<close>

datatype error =
    ErrorString string
  | StatusError (internal: error) (status: int)
  | Canceled
  | DeadlineExceeded

definition NewStatusError :: "int \<Rightarrow> error \<Rightarrow> error" where
  "NewStatusError st wrapped = StatusError wrapped st"

definition StatusOK :: int where "StatusOK = 200"
definition StatusNoContent :: int where "StatusNoContent = 204"
definition StatusInternalServerError :: int where "StatusInternalServerError = 500"

text \<open>The calls on the gin context that write the response.\<close>

datatype render =
    DataFromReader int bytes
  | JSON int "error list"

text \<open>
  \<^verbatim>\<open>ginfn\<close> appends the handler's error to \<^verbatim>\<open>c.Errors\<close>; \<^verbatim>\<open>ErrorHandler\<close>
  looks at the last one: \<^verbatim>\<open>errors.As(err, &s)\<close> finds a \<^verbatim>\<open>StatusError\<close> and takes
  its status, anything else is 500.
\<close>

definition ginfn :: "error option \<Rightarrow> error list" where
  "ginfn r = (case r of None \<Rightarrow> [] | Some err \<Rightarrow> [err])"

fun error_status :: "error \<Rightarrow> int" where
  "error_status (StatusError i st) = st"
| "error_status _ = StatusInternalServerError"

definition ErrorHandler :: "error list \<Rightarrow> render list" where
  "ErrorHandler errs = (if errs = [] then [] else [JSON (error_status (last errs)) errs])"

subsection \<open>The external capabilities\<close>

text \<open>
  The parser (\<^verbatim>\<open>github.com/suyashkumar/dicom\<close>) and the codec
  (\<^verbatim>\<open>frame.GetImage\<close>, \<^verbatim>\<open>png.Encode\<close>) are libraries outside the
  repository, so they are parameters of the model: the frames that
  \<^verbatim>\<open>dicom.ParseUntilEOF(file, framechan)\<close> finds in the opened file, in parse order,
  the error it returns, and the results of the two codec calls.
\<close>

record config =
  frames :: "frame list"
  parse_result :: "error option"
  GetImage :: "frame \<Rightarrow> error + image"
  png_Encode :: "image \<Rightarrow> error + bytes"

subsection \<open>The drain loop\<close>

text \<open>
  One iteration of the \<^verbatim>\<open>select\<close>: either \<^verbatim>\<open>c.Done()\<close> is chosen, and
  \<^verbatim>\<open>c.Err()\<close> is the error of the context, or a receive from the channel is chosen,
  which yields a frame, or nothing when the channel is closed (\<^verbatim>\<open>ok\<close> false).
\<close>

datatype select_case = Done error | Recv "frame option"

datatype 'a ctl = Continue | Return 'a

text \<open>src/main.go, lines 148 to 158.\<close>

fun drain_body :: "select_case \<Rightarrow> error option ctl" where
  "drain_body (Done err) = Return (Some err)"
| "drain_body (Recv None) = Return None"
| "drain_body (Recv (Some f)) = Continue"

text \<open>src/unnamed/part_000, lines 108 to 114: the receive does not look at \<^verbatim>\<open>ok\<close>.\<close>

fun drain_body_part000 :: "select_case \<Rightarrow> error option ctl" where
  "drain_body_part000 (Done err) = Return (Some err)"
| "drain_body_part000 (Recv v) = Continue"

text \<open>
  The \<^verbatim>\<open>for\<close> loop around the body, run on the cases the \<^verbatim>\<open>select\<close> takes one
  after the other. When the cases run out before the body returns, the loop is still in
  the \<^verbatim>\<open>for\<close>.
\<close>

datatype 'a outcome = Returned 'a | Looping

fun drain_loop :: "(select_case \<Rightarrow> error option ctl) \<Rightarrow> select_case list \<Rightarrow> error option outcome" where
  "drain_loop body [] = Looping"
| "drain_loop body (c # cs) =
     (case body c of Return r \<Rightarrow> Returned r | Continue \<Rightarrow> drain_loop body cs)"

subsection \<open>The state of one request\<close>

datatype producer = PSend "frame list" | PRet "error option" | PDone

datatype consumer =
    CRecv
  | CGo frame
  | CGetImage frame
  | CEncode image
  | CRender bytes
  | CRet "error option"
  | CDone

datatype drain = DNone | DSelect | DRet "error option" | DDone

datatype task = Producer | Consumer | Drain

text \<open>
  \<open>closed\<close> is the state of \<^verbatim>\<open>framechan\<close>, \<open>ctx_err\<close> is \<^verbatim>\<open>c.Err()\<close> (the
  context is done when it is not \<open>None\<close>), \<open>grp_err\<close> the error slot of the group,
  \<open>waited\<close> what \<^verbatim>\<open>grp.Wait()\<close> returned once it has. The last four fields are a
  history of the run: the frames each receiver took, the tasks in the order they returned
  into the group, and the number of times the drain was started.
\<close>

record state =
  prd :: producer
  cons :: consumer
  drn :: drain
  closed :: bool
  ctx_err :: "error option"
  grp_err :: "error option"
  waited :: "error option option"
  response :: "render list"
  cons_recv :: "frame list"
  drain_recv :: "frame list"
  returns :: "(task \<times> error option) list"
  spawns :: nat

definition init :: "config \<Rightarrow> state" where
  "init cfg = \<lparr>prd = PSend (frames cfg), cons = CRecv, drn = DNone, closed = False,
     ctx_err = None, grp_err = None, waited = None, response = [], cons_recv = [],
     drain_recv = [], returns = [], spawns = 0\<rparr>"

text \<open>
  Modelled from the spec: the shared cancellation signal of the coordinator, which in
  the source is the context \<^verbatim>\<open>c\<close> of \<^verbatim>\<open>errgroup.WithContext(ctx)\<close>
  (\<^verbatim>\<open>golang.org/x/sync/errgroup\<close>, outside the repository). Cancelling a context
  that is already done changes nothing; otherwise its error is the given one.
\<close>

definition cancel :: "error \<Rightarrow> state \<Rightarrow> state" where
  "cancel err s = (if ctx_err s = None then s\<lparr>ctx_err := Some err\<rparr> else s)"

text \<open>
  Modelled from the spec: the coordinator (4.4), which in the source is the group of
  \<^verbatim>\<open>golang.org/x/sync/errgroup\<close>, outside the repository: "any task returning a
  failure sets the shared cancel signal", with a "first error wins" slot. A function
  started by \<^verbatim>\<open>grp.Go\<close> returns: only the first non-nil error is stored, and
  storing it cancels the context.
\<close>

definition group_done :: "task \<Rightarrow> error option \<Rightarrow> state \<Rightarrow> state" where
  "group_done t r s =
     (let s' = s\<lparr>returns := returns s @ [(t, r)]\<rparr> in
      case r of
        None \<Rightarrow> s'
      | Some err \<Rightarrow> if grp_err s = None then cancel Canceled (s'\<lparr>grp_err := Some err\<rparr>) else s')"

definition drain_select :: "select_case \<Rightarrow> state \<Rightarrow> state" where
  "drain_select c s =
     (case drain_body c of Continue \<Rightarrow> s\<lparr>drn := DSelect\<rparr> | Return r \<Rightarrow> s\<lparr>drn := DRet r\<rparr>)"

subsection \<open>The steps\<close>

datatype label =
    Send
  | Close
  | ProdReturn
  | ConsClosed
  | ConsStep
  | ConsReturn
  | DrainDone
  | DrainClosed
  | DrainReturn
  | Wait
  | ExtCancel
  | ExtDeadline

text \<open>
  Modelled from the spec: the parser (4.1), which is outside the repository, sends every
  frame it decodes, in parse order, on the channel, and "a send blocks until a receiver
  is present"; the source passes it the channel of \<^verbatim>\<open>make(chan *frame.Frame)\<close>,
  which has no buffer, and no context. \<open>Send\<close>: the producer hands its next frame to
  the goroutine that is receiving, the consumer at its one receive or the drain at its
  \<^verbatim>\<open>select\<close>; with no receiver the send blocks.
\<close>

definition step_Send :: "state \<Rightarrow> state option" where
  "step_Send s =
     (case prd s of
        PSend (f # fs) \<Rightarrow>
          if cons s = CRecv then
            Some (s\<lparr>prd := PSend fs, cons := CGo f, cons_recv := cons_recv s @ [f]\<rparr>)
          else if drn s = DSelect then
            Some (drain_select (Recv (Some f))
                    (s\<lparr>prd := PSend fs, drain_recv := drain_recv s @ [f]\<rparr>))
          else None
      | _ \<Rightarrow> None)"

text \<open>
  Modelled from the spec: the parser (4.1) "unconditionally closes the Conduit when
  parsing terminates, whether it terminates by reaching the end of input or by error".
  \<open>Close\<close>: parsing has ended; the parser closes the channel and has its result,
  which \<open>ProdReturn\<close> then hands to the group.
\<close>

definition step_Close :: "config \<Rightarrow> state \<Rightarrow> state option" where
  "step_Close cfg s =
     (case prd s of
        PSend [] \<Rightarrow> Some (s\<lparr>closed := True, prd := PRet (parse_result cfg)\<rparr>)
      | _ \<Rightarrow> None)"

definition step_ProdReturn :: "state \<Rightarrow> state option" where
  "step_ProdReturn s =
     (case prd s of
        PRet r \<Rightarrow> Some (group_done Producer r (s\<lparr>prd := PDone\<rparr>))
      | _ \<Rightarrow> None)"

text \<open>\<open>ConsClosed\<close>: the consumer's receive finds the channel closed.\<close>

definition step_ConsClosed :: "state \<Rightarrow> state option" where
  "step_ConsClosed s =
     (if cons s = CRecv \<and> closed s then
        Some (s\<lparr>cons := CRet (Some (NewStatusError StatusNoContent
                                       (ErrorString ''no image content found'')))\<rparr>)
      else None)"

text \<open>
  \<open>ConsStep\<close>: the consumer's next statement after it has received a frame:
  \<^verbatim>\<open>grp.Go\<close> of the drain, \<^verbatim>\<open>f.GetImage()\<close>, \<^verbatim>\<open>png.Encode\<close>,
  \<^verbatim>\<open>ctx.DataFromReader\<close>.
\<close>

definition step_ConsStep :: "config \<Rightarrow> state \<Rightarrow> state option" where
  "step_ConsStep cfg s =
     (case cons s of
        CGo f \<Rightarrow> Some (s\<lparr>drn := DSelect, spawns := Suc (spawns s), cons := CGetImage f\<rparr>)
      | CGetImage f \<Rightarrow>
          (case GetImage cfg f of
             Inl err \<Rightarrow> Some (s\<lparr>cons := CRet (Some err)\<rparr>)
           | Inr img \<Rightarrow> Some (s\<lparr>cons := CEncode img\<rparr>))
      | CEncode img \<Rightarrow>
          (case png_Encode cfg img of
             Inl err \<Rightarrow> Some (s\<lparr>cons := CRet (Some err)\<rparr>)
           | Inr buf \<Rightarrow> Some (s\<lparr>cons := CRender buf\<rparr>))
      | CRender buf \<Rightarrow>
          Some (s\<lparr>response := response s @ [DataFromReader StatusOK buf], cons := CRet None\<rparr>)
      | _ \<Rightarrow> None)"

definition step_ConsReturn :: "state \<Rightarrow> state option" where
  "step_ConsReturn s =
     (case cons s of
        CRet r \<Rightarrow> Some (group_done Consumer r (s\<lparr>cons := CDone\<rparr>))
      | _ \<Rightarrow> None)"

text \<open>
  \<open>DrainDone\<close> and \<open>DrainClosed\<close>: the \<^verbatim>\<open>select\<close> of the drain takes the case of
  the context, which is ready once the context is done, or receives from the closed
  channel.
\<close>

definition step_DrainDone :: "state \<Rightarrow> state option" where
  "step_DrainDone s =
     (case ctx_err s of
        Some err \<Rightarrow> if drn s = DSelect then Some (drain_select (Done err) s) else None
      | None \<Rightarrow> None)"

definition step_DrainClosed :: "state \<Rightarrow> state option" where
  "step_DrainClosed s =
     (if drn s = DSelect \<and> closed s then Some (drain_select (Recv None) s) else None)"

definition step_DrainReturn :: "state \<Rightarrow> state option" where
  "step_DrainReturn s =
     (case drn s of
        DRet r \<Rightarrow> Some (group_done Drain r (s\<lparr>drn := DDone\<rparr>))
      | _ \<Rightarrow> None)"

text \<open>
  Modelled from the spec: the coordinator (4.4) joins all its tasks and its "final
  result is the first failure observed across the three tasks, else success".
  \<open>Wait\<close>: \<^verbatim>\<open>grp.Wait()\<close> returns when every function given to \<^verbatim>\<open>grp.Go\<close> has
  returned; it cancels the context and returns the stored error.
\<close>

definition step_Wait :: "state \<Rightarrow> state option" where
  "step_Wait s =
     (if waited s = None \<and> prd s = PDone \<and> cons s = CDone \<and> (drn s = DNone \<or> drn s = DDone)
      then Some (cancel Canceled (s\<lparr>waited := Some (grp_err s)\<rparr>))
      else None)"

text \<open>
  \<open>ExtCancel\<close> and \<open>ExtDeadline\<close>: the context of the request, the parent of
  \<^verbatim>\<open>c\<close>, is cancelled or runs out of time.
\<close>

definition step_Ext :: "error \<Rightarrow> state \<Rightarrow> state option" where
  "step_Ext err s = (if ctx_err s = None then Some (cancel err s) else None)"

fun step :: "config \<Rightarrow> label \<Rightarrow> state \<Rightarrow> state option" where
  "step cfg Send s = step_Send s"
| "step cfg Close s = step_Close cfg s"
| "step cfg ProdReturn s = step_ProdReturn s"
| "step cfg ConsClosed s = step_ConsClosed s"
| "step cfg ConsStep s = step_ConsStep cfg s"
| "step cfg ConsReturn s = step_ConsReturn s"
| "step cfg DrainDone s = step_DrainDone s"
| "step cfg DrainClosed s = step_DrainClosed s"
| "step cfg DrainReturn s = step_DrainReturn s"
| "step cfg Wait s = step_Wait s"
| "step cfg ExtCancel s = step_Ext Canceled s"
| "step cfg ExtDeadline s = step_Ext DeadlineExceeded s"

fun run :: "config \<Rightarrow> label list \<Rightarrow> state \<Rightarrow> state option" where
  "run cfg [] s = Some s"
| "run cfg (l # ls) s = (case step cfg l s of None \<Rightarrow> None | Some s' \<Rightarrow> run cfg ls s')"

definition all_labels :: "label list" where
  "all_labels = [Send, Close, ProdReturn, ConsClosed, ConsStep, ConsReturn, DrainDone,
     DrainClosed, DrainReturn, Wait, ExtCancel, ExtDeadline]"

definition enabled :: "config \<Rightarrow> state \<Rightarrow> label list" where
  "enabled cfg s = filter (\<lambda>l. step cfg l s \<noteq> None) all_labels"

text \<open>
  What the client of the handler gets once \<^verbatim>\<open>grp.Wait()\<close> has returned \<open>r\<close>: the
  calls the consumer made, then the one of \<^verbatim>\<open>ErrorHandler\<close>.
\<close>

definition respond :: "state \<Rightarrow> error option \<Rightarrow> render list" where
  "respond s r = response s @ ErrorHandler (ginfn r)"

text \<open>The first task that returned an error, in the order of the returns.\<close>

fun first_failure :: "(task \<times> error option) list \<Rightarrow> (task \<times> error) option" where
  "first_failure [] = None"
| "first_failure ((t, None) # rs) = first_failure rs"
| "first_failure ((t, Some err) # rs) = Some (t, err)"

text \<open>The error the consumer returns when the channel is closed before any frame.\<close>

definition no_content :: error where
  "no_content = NewStatusError StatusNoContent (ErrorString ''no image content found'')"

subsection \<open>Views of the state used in the statements\<close>

fun pending :: "producer \<Rightarrow> frame list" where
  "pending (PSend fs) = fs"
| "pending _ = []"

fun sending :: "producer \<Rightarrow> bool" where
  "sending (PSend fs) = True"
| "sending _ = False"

datatype cstage = Waiting | Got | Working | Finished

fun stage :: "consumer \<Rightarrow> cstage" where
  "stage CRecv = Waiting"
| "stage (CGo f) = Got"
| "stage (CGetImage f) = Working"
| "stage (CEncode img) = Working"
| "stage (CRender buf) = Working"
| "stage (CRet r) = Finished"
| "stage CDone = Finished"

subsection \<open>Inputs used as examples\<close>

text \<open>A codec that succeeds on every frame, and one that cannot decode any.\<close>

definition codec_ok :: "frame \<Rightarrow> error + image" where
  "codec_ok f = Inr f"

definition codec_fail :: "frame \<Rightarrow> error + image" where
  "codec_fail f = Inl (ErrorString ''unsupported pixel data'')"

definition encode_ok :: "image \<Rightarrow> error + bytes" where
  "encode_ok img = Inr [img]"

definition cfg_two :: config where
  "cfg_two = \<lparr>frames = [1, 2], parse_result = None, GetImage = codec_ok, png_Encode = encode_ok\<rparr>"

definition cfg_one :: config where
  "cfg_one = \<lparr>frames = [1], parse_result = None, GetImage = codec_ok, png_Encode = encode_ok\<rparr>"

definition cfg_empty :: config where
  "cfg_empty = \<lparr>frames = [], parse_result = None, GetImage = codec_ok, png_Encode = encode_ok\<rparr>"

definition cfg_truncated :: config where
  "cfg_truncated = \<lparr>frames = [], parse_result = Some (ErrorString ''unexpected EOF''),
     GetImage = codec_ok, png_Encode = encode_ok\<rparr>"

definition cfg_one_then_fail :: config where
  "cfg_one_then_fail = \<lparr>frames = [1], parse_result = Some (ErrorString ''unexpected EOF''),
     GetImage = codec_ok, png_Encode = encode_ok\<rparr>"

definition cfg_undecodable :: config where
  "cfg_undecodable = \<lparr>frames = [1, 2], parse_result = None, GetImage = codec_fail,
     png_Encode = encode_ok\<rparr>"

definition cfg_one_undecodable :: config where
  "cfg_one_undecodable = \<lparr>frames = [1], parse_result = None, GetImage = codec_fail,
     png_Encode = encode_ok\<rparr>"

text \<open>States reached by the example runs.\<close>

definition st_spawned :: state where
  "st_spawned = \<lparr>prd = PSend [2], cons = CGetImage 1, drn = DSelect, closed = False,
     ctx_err = None, grp_err = None, waited = None, response = [], cons_recv = [1],
     drain_recv = [], returns = [], spawns = 1\<rparr>"

definition st_done :: "error option \<Rightarrow> drain \<Rightarrow> render list \<Rightarrow> frame list \<Rightarrow> frame list \<Rightarrow>
    (task \<times> error option) list \<Rightarrow> nat \<Rightarrow> state" where
  "st_done r d resp cr dr rets n = \<lparr>prd = PDone, cons = CDone, drn = d, closed = True,
     ctx_err = Some Canceled, grp_err = r, waited = Some r, response = resp, cons_recv = cr,
     drain_recv = dr, returns = rets, spawns = n\<rparr>"

definition st_stuck :: state where
  "st_stuck = \<lparr>prd = PSend [2], cons = CDone, drn = DDone, closed = False,
     ctx_err = Some Canceled, grp_err = Some (ErrorString ''unsupported pixel data''),
     waited = None, response = [], cons_recv = [1], drain_recv = [],
     returns = [(Consumer, Some (ErrorString ''unsupported pixel data'')),
       (Drain, Some Canceled)], spawns = 1\<rparr>"

subsection \<open>Invariants of the runs\<close>

text \<open>
  Each of these holds in the initial state and is kept by every step (some with the help
  of an earlier one). \<open>inv_noext\<close> is kept by every step other than a cancellation
  of the request's context.
\<close>

definition inv_spawn :: "state \<Rightarrow> bool" where
  "inv_spawn s = ((drn s = DNone) = (spawns s = 0) \<and> (spawns s = 0 \<or> spawns s = 1) \<and>
     (spawns s = 0 \<longrightarrow> drain_recv s = []) \<and>
     (stage (cons s) = Waiting \<or> stage (cons s) = Got \<longrightarrow> spawns s = 0) \<and>
     (stage (cons s) = Working \<longrightarrow> spawns s = 1))"

definition inv_recv :: "state \<Rightarrow> bool" where
  "inv_recv s = ((stage (cons s) = Waiting \<longrightarrow> cons_recv s = []) \<and>
     (stage (cons s) = Got \<or> stage (cons s) = Working \<longrightarrow> length (cons_recv s) = 1) \<and>
     (stage (cons s) = Finished \<longrightarrow> length (cons_recv s) = spawns s \<and> (spawns s = 0 \<longrightarrow> closed s)) \<and>
     (\<forall>f. cons s = CGo f \<or> cons s = CGetImage f \<longrightarrow> cons_recv s = [f]))"

definition inv_chan :: "config \<Rightarrow> state \<Rightarrow> bool" where
  "inv_chan cfg s = (closed s = (\<not> sending (prd s)) \<and>
     cons_recv s @ drain_recv s @ pending (prd s) = frames cfg)"

definition inv_drain :: "state \<Rightarrow> bool" where
  "inv_drain s = ((\<forall>r. drn s = DRet r \<or> (Drain, r) \<in> set (returns s) \<longrightarrow>
       (r = None \<longrightarrow> closed s) \<and> (\<forall>e. r = Some e \<longrightarrow> ctx_err s = Some e)) \<and>
     ((\<exists>r. drn s = DRet r) \<or> drn s = DDone \<longrightarrow> closed s \<or> ctx_err s \<noteq> None))"

definition inv_group :: "state \<Rightarrow> bool" where
  "inv_group s = (grp_err s = map_option snd (first_failure (returns s)) \<and>
     (grp_err s \<noteq> None \<longrightarrow> ctx_err s \<noteq> None) \<and>
     (\<forall>r. waited s = Some r \<longrightarrow> r = grp_err s \<and> ctx_err s \<noteq> None \<and> prd s = PDone \<and> cons s = CDone \<and>
        (drn s = DNone \<or> drn s = DDone)))"

definition inv_log :: "config \<Rightarrow> state \<Rightarrow> bool" where
  "inv_log cfg s = ((\<forall>r. (Producer, r) \<in> set (returns s) \<longrightarrow> prd s = PDone \<and> r = parse_result cfg) \<and>
     (\<forall>r. prd s = PRet r \<longrightarrow> r = parse_result cfg) \<and>
     (\<forall>r. (Consumer, r) \<in> set (returns s) \<longrightarrow> cons s = CDone) \<and>
     (\<forall>r. (Drain, r) \<in> set (returns s) \<longrightarrow> drn s = DDone))"

definition inv_logged :: "config \<Rightarrow> state \<Rightarrow> bool" where
  "inv_logged cfg s = ((prd s = PDone \<longrightarrow> (Producer, parse_result cfg) \<in> set (returns s)) \<and>
     (\<forall>r. prd s = PRet r \<longrightarrow> r = parse_result cfg) \<and>
     (cons s = CDone \<longrightarrow> (\<exists>r. (Consumer, r) \<in> set (returns s))) \<and>
     (drn s = DDone \<longrightarrow> (\<exists>r. (Drain, r) \<in> set (returns s))))"

definition inv_resp :: "state \<Rightarrow> bool" where
  "inv_resp s = ((stage (cons s) \<noteq> Finished \<longrightarrow> response s = []) \<and>
     (\<forall>r. cons s = CRet r \<or> (Consumer, r) \<in> set (returns s) \<longrightarrow>
        (r = None \<longrightarrow> (\<exists>buf. response s = [DataFromReader StatusOK buf])) \<and>
        (r \<noteq> None \<longrightarrow> response s = []) \<and>
        (cons_recv s = [] \<longrightarrow> r = Some no_content)))"

definition pipeline_inv :: "config \<Rightarrow> state \<Rightarrow> bool" where
  "pipeline_inv cfg s = (inv_spawn s \<and> inv_recv s \<and> inv_chan cfg s \<and> inv_drain s \<and> inv_group s \<and>
     inv_log cfg s \<and> inv_logged cfg s \<and> inv_resp s)"


section \<open>Basic facts\<close>

lemma cancel_fields [simp]:
  "prd (cancel e s) = prd s" "cons (cancel e s) = cons s" "drn (cancel e s) = drn s"
  "closed (cancel e s) = closed s" "grp_err (cancel e s) = grp_err s"
  "waited (cancel e s) = waited s" "response (cancel e s) = response s"
  "cons_recv (cancel e s) = cons_recv s" "drain_recv (cancel e s) = drain_recv s"
  "returns (cancel e s) = returns s" "spawns (cancel e s) = spawns s"
  "ctx_err (cancel e s) = (if ctx_err s = None then Some e else ctx_err s)"
  by (simp_all add: cancel_def)

lemma group_done_fields [simp]:
  "prd (group_done t r s) = prd s" "cons (group_done t r s) = cons s"
  "drn (group_done t r s) = drn s" "closed (group_done t r s) = closed s"
  "waited (group_done t r s) = waited s" "response (group_done t r s) = response s"
  "cons_recv (group_done t r s) = cons_recv s" "drain_recv (group_done t r s) = drain_recv s"
  "spawns (group_done t r s) = spawns s"
  "returns (group_done t r s) = returns s @ [(t, r)]"
  "grp_err (group_done t r s) = (if grp_err s = None then r else grp_err s)"
  "ctx_err (group_done t r s) =
     (if r \<noteq> None \<and> grp_err s = None \<and> ctx_err s = None then Some Canceled else ctx_err s)"
  by (simp_all add: group_done_def Let_def split: option.splits)

lemmas step_defs = step_Send_def step_Close_def step_ProdReturn_def step_ConsClosed_def
  step_ConsStep_def step_ConsReturn_def step_DrainDone_def step_DrainClosed_def
  step_DrainReturn_def step_Wait_def step_Ext_def

lemmas run_defs = step_defs group_done_def cancel_def drain_select_def init_def
  StatusOK_def StatusNoContent_def StatusInternalServerError_def NewStatusError_def
  codec_ok_def codec_fail_def encode_ok_def

lemma drain_select_fields [simp]:
  "prd (drain_select c s) = prd s" "cons (drain_select c s) = cons s"
  "closed (drain_select c s) = closed s" "grp_err (drain_select c s) = grp_err s"
  "ctx_err (drain_select c s) = ctx_err s"
  "waited (drain_select c s) = waited s" "response (drain_select c s) = response s"
  "cons_recv (drain_select c s) = cons_recv s" "drain_recv (drain_select c s) = drain_recv s"
  "returns (drain_select c s) = returns s" "spawns (drain_select c s) = spawns s"
  "drn (drain_select c s) = (case drain_body c of Continue \<Rightarrow> DSelect | Return r \<Rightarrow> DRet r)"
  by (simp_all add: drain_select_def split: ctl.splits)

lemma step_cases [consumes 1, case_names SendCons SendDrain Close ProdReturn ConsClosed Spawn
    GetImageErr GetImageOk EncodeErr EncodeOk Render ConsReturn DrainDone DrainClosed
    DrainReturn Wait Ext]:
  assumes "step cfg l s = Some s'"
  obtains
    f fs where "l = Send" "prd s = PSend (f # fs)" "cons s = CRecv"
      "s' = s\<lparr>prd := PSend fs, cons := CGo f, cons_recv := cons_recv s @ [f]\<rparr>"
  | f fs where "l = Send" "prd s = PSend (f # fs)" "cons s \<noteq> CRecv" "drn s = DSelect"
      "s' = s\<lparr>prd := PSend fs, drain_recv := drain_recv s @ [f]\<rparr>"
  | "l = Close" "prd s = PSend []" "s' = s\<lparr>closed := True, prd := PRet (parse_result cfg)\<rparr>"
  | r where "l = ProdReturn" "prd s = PRet r" "s' = group_done Producer r (s\<lparr>prd := PDone\<rparr>)"
  | "l = ConsClosed" "cons s = CRecv" "closed s" "s' = s\<lparr>cons := CRet (Some no_content)\<rparr>"
  | f where "l = ConsStep" "cons s = CGo f"
      "s' = s\<lparr>drn := DSelect, spawns := Suc (spawns s), cons := CGetImage f\<rparr>"
  | f err where "l = ConsStep" "cons s = CGetImage f" "GetImage cfg f = Inl err"
      "s' = s\<lparr>cons := CRet (Some err)\<rparr>"
  | f img where "l = ConsStep" "cons s = CGetImage f" "GetImage cfg f = Inr img"
      "s' = s\<lparr>cons := CEncode img\<rparr>"
  | img err where "l = ConsStep" "cons s = CEncode img" "png_Encode cfg img = Inl err"
      "s' = s\<lparr>cons := CRet (Some err)\<rparr>"
  | img buf where "l = ConsStep" "cons s = CEncode img" "png_Encode cfg img = Inr buf"
      "s' = s\<lparr>cons := CRender buf\<rparr>"
  | buf where "l = ConsStep" "cons s = CRender buf"
      "s' = s\<lparr>response := response s @ [DataFromReader StatusOK buf], cons := CRet None\<rparr>"
  | r where "l = ConsReturn" "cons s = CRet r" "s' = group_done Consumer r (s\<lparr>cons := CDone\<rparr>)"
  | err where "l = DrainDone" "drn s = DSelect" "ctx_err s = Some err"
      "s' = s\<lparr>drn := DRet (Some err)\<rparr>"
  | "l = DrainClosed" "drn s = DSelect" "closed s" "s' = s\<lparr>drn := DRet None\<rparr>"
  | r where "l = DrainReturn" "drn s = DRet r" "s' = group_done Drain r (s\<lparr>drn := DDone\<rparr>)"
  | "l = Wait" "waited s = None" "prd s = PDone" "cons s = CDone" "drn s = DNone \<or> drn s = DDone"
      "s' = cancel Canceled (s\<lparr>waited := Some (grp_err s)\<rparr>)"
  | err where "l = ExtCancel \<or> l = ExtDeadline" "ctx_err s = None" "s' = cancel err s"
proof (cases l)
  case Send
  then show ?thesis using assms that(1,2)
    by (auto simp: step_Send_def drain_select_def split: producer.splits list.splits if_splits)
next
  case Close
  then show ?thesis using assms that(3)
    by (auto simp: step_Close_def split: producer.splits list.splits)
next
  case ProdReturn
  then show ?thesis using assms that(4)
    by (auto simp: step_ProdReturn_def split: producer.splits)
next
  case ConsClosed
  then show ?thesis using assms that(5)
    by (auto simp: step_ConsClosed_def no_content_def split: if_splits)
next
  case ConsStep
  then show ?thesis using assms that(6,7,8,9,10,11)
    by (auto simp: step_ConsStep_def split: consumer.splits sum.splits)
next
  case ConsReturn
  then show ?thesis using assms that(12)
    by (auto simp: step_ConsReturn_def split: consumer.splits)
next
  case DrainDone
  then show ?thesis using assms that(13)
    by (auto simp: step_DrainDone_def drain_select_def split: option.splits if_splits)
next
  case DrainClosed
  then show ?thesis using assms that(14)
    by (auto simp: step_DrainClosed_def drain_select_def split: if_splits)
next
  case DrainReturn
  then show ?thesis using assms that(15)
    by (auto simp: step_DrainReturn_def split: drain.splits)
next
  case Wait
  then show ?thesis using assms that(16)
    by (auto simp: step_Wait_def split: if_splits)
next
  case ExtCancel
  then show ?thesis using assms that(17)
    by (auto simp: step_Ext_def split: if_splits)
next
  case ExtDeadline
  then show ?thesis using assms that(17)
    by (auto simp: step_Ext_def split: if_splits)
qed

lemma run_invariant:
  assumes "run cfg ls s = Some s'" and "P s"
    and "\<And>l s s'. P s \<Longrightarrow> step cfg l s = Some s' \<Longrightarrow> P s'"
  shows "P s'"
  using assms(1,2)
proof (induction ls arbitrary: s)
  case Nil
  then show ?case by simp
next
  case (Cons l ls)
  then show ?case by (auto split: option.splits dest: assms(3))
qed


lemma first_failure_snoc:
  "first_failure (rs @ [(t, r)]) =
     (case first_failure rs of Some x \<Rightarrow> Some x | None \<Rightarrow> map_option (Pair t) r)"
  by (induction rs rule: first_failure.induct) (cases r; simp)+

lemma map_option_snd_Pair [simp]: "map_option snd (map_option (Pair t) r) = r"
  by (cases r) simp_all

lemma inv_spawn_step: "inv_spawn s \<Longrightarrow> step cfg l s = Some s' \<Longrightarrow> inv_spawn s'"
  by (erule step_cases) (auto simp add: inv_spawn_def)
lemma inv_recv_step: "inv_spawn s \<Longrightarrow> inv_recv s \<Longrightarrow> step cfg l s = Some s' \<Longrightarrow> inv_recv s'"
  by (erule step_cases) (auto simp add: inv_spawn_def inv_recv_def)
lemma inv_chan_step: "inv_spawn s \<Longrightarrow> inv_chan cfg s \<Longrightarrow> step cfg l s = Some s' \<Longrightarrow> inv_chan cfg s'"
  by (erule step_cases) (simp_all add: inv_chan_def inv_spawn_def)
lemma inv_drain_step: "inv_drain s \<Longrightarrow> step cfg l s = Some s' \<Longrightarrow> inv_drain s'"
  by (erule step_cases; simp add: inv_drain_def; (blast | force)?)
lemma inv_group_step: "inv_group s \<Longrightarrow> step cfg l s = Some s' \<Longrightarrow> inv_group s'"
  by (erule step_cases) (auto simp add: inv_group_def first_failure_snoc split: option.splits)
lemma inv_log_step: "inv_spawn s \<Longrightarrow> inv_log cfg s \<Longrightarrow> step cfg l s = Some s' \<Longrightarrow> inv_log cfg s'"
  by (erule step_cases; simp add: inv_log_def inv_spawn_def; (blast | force)?)
lemma inv_logged_step: "inv_logged cfg s \<Longrightarrow> step cfg l s = Some s' \<Longrightarrow> inv_logged cfg s'"
  by (erule step_cases; simp add: inv_logged_def; (blast | force)?)
lemma inv_resp_step: "inv_log cfg s \<Longrightarrow> inv_recv s \<Longrightarrow> inv_resp s \<Longrightarrow> step cfg l s = Some s' \<Longrightarrow> inv_resp s'"
  by (erule step_cases; simp add: inv_resp_def inv_log_def inv_recv_def; (blast | force)?)


lemma inv_init: "pipeline_inv cfg (init cfg)"
  by (simp add: pipeline_inv_def init_def inv_spawn_def inv_recv_def inv_chan_def inv_drain_def
      inv_group_def inv_log_def inv_logged_def inv_resp_def)

lemma inv_step:
  assumes "pipeline_inv cfg s" and st: "step cfg l s = Some s'"
  shows "pipeline_inv cfg s'"
proof -
  from assms(1) have a: "inv_spawn s" "inv_recv s" "inv_chan cfg s" "inv_drain s" "inv_group s"
    "inv_log cfg s" "inv_logged cfg s" "inv_resp s"
    by (simp_all add: pipeline_inv_def)
  show ?thesis
    unfolding pipeline_inv_def
    by (intro conjI inv_spawn_step [OF a(1) st] inv_recv_step [OF a(1,2) st]
        inv_chan_step [OF a(1,3) st] inv_drain_step [OF a(4) st] inv_group_step [OF a(5) st]
        inv_log_step [OF a(1,6) st] inv_logged_step [OF a(7) st]
        inv_resp_step [OF a(6,2,8) st])
qed

lemma inv_run: "run cfg ls (init cfg) = Some s \<Longrightarrow> pipeline_inv cfg s"
  by (rule run_invariant [where P = "pipeline_inv cfg"]) (auto intro: inv_init inv_step)





lemma first_failure_exists: "(t, Some e) \<in> set rs \<Longrightarrow> \<exists>t' e'. first_failure rs = Some (t', e')"
  by (induction rs rule: first_failure.induct) auto

lemma first_failure_only:
  "(t, Some e) \<in> set rs \<Longrightarrow> \<forall>t' r. (t', r) \<in> set rs \<longrightarrow> r = None \<or> (t' = t \<and> r = Some e) \<Longrightarrow>
     first_failure rs = Some (t, e)"
  by (induction rs rule: first_failure.induct) auto


lemma stage_cases:
  "stage c = Waiting \<or> stage c = Got \<or> stage c = Working \<or> stage c = Finished"
  by (cases "stage c") simp_all

lemma no_unit_no_drain:
  assumes "inv_spawn s" "inv_recv s" "cons_recv s = []"
  shows "spawns s = 0 \<and> drn s = DNone \<and> drain_recv s = []"
  using assms stage_cases [of "cons s"]
  by (auto simp: inv_spawn_def inv_recv_def)

lemma inv_parts:
  assumes "run cfg ls (init cfg) = Some s"
  shows "inv_spawn s" "inv_recv s" "inv_chan cfg s" "inv_drain s" "inv_group s"
    "inv_log cfg s" "inv_logged cfg s" "inv_resp s"
  using inv_run [OF assms] by (simp_all add: pipeline_inv_def)

lemma respond_error:
  "response s = [] \<Longrightarrow> respond s (Some e) = [JSON (error_status e) [e]]"
  by (simp add: respond_def ErrorHandler_def ginfn_def)

lemma error_status_no_content: "error_status no_content = StatusNoContent"
  by (simp add: no_content_def NewStatusError_def)

lemmas eval_defs = run_defs cfg_two_def cfg_one_def cfg_empty_def cfg_truncated_def
  cfg_one_then_fail_def cfg_undecodable_def cfg_one_undecodable_def st_spawned_def st_done_def
  st_stuck_def no_content_def respond_def ErrorHandler_def ginfn_def enabled_def all_labels_def

section \<open>The claims\<close>

text \<open>
  C1. The claim: when the context of the request is cancelled while the producer is in
  the middle of its parse, all three tasks end and \<^verbatim>\<open>grp.Wait()\<close> returns. On a file
  with two frames: the consumer takes the first frame and starts the drain, the request
  is cancelled, the drain takes the case \<^verbatim>\<open>c.Done()\<close> and returns, the consumer
  finishes. The producer still has the second frame to send and nobody receives: no
  step is enabled in the state reached, and \<^verbatim>\<open>grp.Wait()\<close> has not returned.
\<close>

theorem cancelled_request_blocks_producer:
  "run cfg_two [Send, ConsStep, ExtCancel, DrainDone, DrainReturn, ConsStep, ConsStep,
       ConsStep, ConsReturn] (init cfg_two) =
     Some \<lparr>prd = PSend [2], cons = CDone, drn = DDone, closed = False,
        ctx_err = Some Canceled, grp_err = Some Canceled, waited = None,
        response = [DataFromReader 200 [1]], cons_recv = [1], drain_recv = [],
        returns = [(Drain, Some Canceled), (Consumer, None)], spawns = 1\<rparr> \<and>
   enabled cfg_two \<lparr>prd = PSend [2], cons = CDone, drn = DDone, closed = False,
        ctx_err = Some Canceled, grp_err = Some Canceled, waited = None,
        response = [DataFromReader 200 [1]], cons_recv = [1], drain_recv = [],
        returns = [(Drain, Some Canceled), (Consumer, None)], spawns = 1\<rparr> = []"
  by (simp add: cfg_two_def enabled_def all_labels_def run_defs)



text \<open>
  C3. The claim: with no frame in the input the outcome is NoContent and no task reports
  a failure. The consumer of src/main.go reports NoContent as an error: it returns
  \<^verbatim>\<open>NewStatusError(http.StatusNoContent, ...)\<close>, so a task does return a failure.
\<close>

theorem zero_units_consumer_returns_error:
  "run cfg_empty [Close, ConsClosed, ConsReturn, ProdReturn, Wait] (init cfg_empty) =
     Some (st_done (Some no_content) DNone [] [] []
       [(Consumer, Some no_content), (Producer, None)] 0) \<and>
   no_content = StatusError (ErrorString ''no image content found'') 204"
  by (simp add: eval_defs)

text \<open>
  C3, as amended: for an input with no frame and no parse error, in every run the
  consumer receives nothing and the drain is never started; the only error a task
  returns is the consumer's \<open>StatusError\<close> with status 204; it is what
  \<^verbatim>\<open>grp.Wait()\<close> returns, and \<^verbatim>\<open>ErrorHandler\<close> answers it with status 204.
\<close>

theorem zero_units_no_content:
  assumes "frames cfg = []" and "parse_result cfg = None"
    and "run cfg ls (init cfg) = Some s"
  shows "cons_recv s = [] \<and> spawns s = 0 \<and>
    (\<forall>t r. (t, r) \<in> set (returns s) \<longrightarrow>
       t = Consumer \<and> r = Some no_content \<or> t = Producer \<and> r = None) \<and>
    (\<forall>r. waited s = Some r \<longrightarrow>
       r = Some no_content \<and> respond s r = [JSON StatusNoContent [no_content]])"
proof -
  note i = inv_parts [OF assms(3)]
  have cr: "cons_recv s = []"
    using i(3) assms(1) by (simp add: inv_chan_def)
  have nd: "spawns s = 0 \<and> drn s = DNone \<and> drain_recv s = []"
    using no_unit_no_drain [OF i(1,2) cr] .
  have ent: "t = Consumer \<and> r = Some no_content \<or> t = Producer \<and> r = None"
    if "(t, r) \<in> set (returns s)" for t r
  proof (cases t)
    case Producer
    with that i(6) assms(2) show ?thesis by (simp add: inv_log_def)
  next
    case Consumer
    with that i(8) cr show ?thesis by (simp add: inv_resp_def)
  next
    case Drain
    with that i(6) have "drn s = DDone" by (auto simp: inv_log_def)
    with nd show ?thesis by simp
  qed
  have w: "r = Some no_content \<and> respond s r = [JSON StatusNoContent [no_content]]"
    if "waited s = Some r" for r
  proof -
    from that i(5) have r: "r = map_option snd (first_failure (returns s))" "cons s = CDone"
      by (simp_all add: inv_group_def)
    from r(2) i(7) obtain rc where rc: "(Consumer, rc) \<in> set (returns s)"
      by (auto simp: inv_logged_def)
    with ent have rc': "rc = Some no_content" by blast
    have "first_failure (returns s) = Some (Consumer, no_content)"
      using rc rc' ent by (intro first_failure_only) auto
    with r(1) have 1: "r = Some no_content" by simp
    from rc rc' i(8) have "response s = []" by (auto simp: inv_resp_def)
    with 1 show ?thesis by (simp add: respond_error error_status_no_content)
  qed
  from cr nd ent w show ?thesis by blast
qed

theorem zero_units_no_content_witness:
  "frames cfg_empty = [] \<and> parse_result cfg_empty = None \<and>
   run cfg_empty [Close, ProdReturn, ConsClosed, ConsReturn, Wait] (init cfg_empty) =
     Some (st_done (Some no_content) DNone [] [] []
       [(Producer, None), (Consumer, Some no_content)] 0) \<and>
   respond (st_done (Some no_content) DNone [] [] []
       [(Producer, None), (Consumer, Some no_content)] 0) (Some no_content) =
     [JSON StatusNoContent [no_content]]"
proof -
  have f: "frames cfg_empty = []" and p: "parse_result cfg_empty = None"
    by (simp_all add: cfg_empty_def)
  have h: "run cfg_empty [Close, ProdReturn, ConsClosed, ConsReturn, Wait] (init cfg_empty) =
     Some (st_done (Some no_content) DNone [] [] []
       [(Producer, None), (Consumer, Some no_content)] 0)"
    by (simp add: eval_defs)
  from zero_units_no_content [OF f p h] f p h show ?thesis
    by (simp add: st_done_def)
qed









text \<open>
  C7. The claim: when the producer fails before any frame, the outcome is its parse
  failure and never NoContent. The parser closes the channel before it returns, so the
  consumer can see the closed channel and return its 204 error before the producer's
  error reaches the group: then \<^verbatim>\<open>grp.Wait()\<close> returns the 204 error.
\<close>

theorem parse_failure_reported_as_no_content:
  "frames cfg_truncated = [] \<and> parse_result cfg_truncated = Some (ErrorString ''unexpected EOF'') \<and>
   run cfg_truncated [Close, ConsClosed, ConsReturn, ProdReturn, Wait] (init cfg_truncated) =
     Some (st_done (Some no_content) DNone [] [] []
       [(Consumer, Some no_content), (Producer, Some (ErrorString ''unexpected EOF''))] 0) \<and>
   respond (st_done (Some no_content) DNone [] [] []
       [(Consumer, Some no_content), (Producer, Some (ErrorString ''unexpected EOF''))] 0)
     (Some no_content) = [JSON 204 [no_content]]"
  by (simp add: eval_defs)

text \<open>
  C7, as amended: when the producer fails before any frame, the result of
  \<^verbatim>\<open>grp.Wait()\<close> is never success and nothing was written by the consumer; in every
  run in which the producer's error is the first return into the group, the result is
  that error, and \<^verbatim>\<open>ErrorHandler\<close> answers with its status.
\<close>

theorem early_parse_failure:
  assumes "frames cfg = []" and "parse_result cfg = Some e"
    and "run cfg ls (init cfg) = Some s" and "waited s = Some r"
  shows "r \<noteq> None \<and> response s = [] \<and>
    (\<forall>rs. returns s = (Producer, Some e) # rs \<longrightarrow>
       r = Some e \<and> respond s r = [JSON (error_status e) [e]])"
proof -
  note i = inv_parts [OF assms(3)]
  from assms(4) i(5) have r: "r = map_option snd (first_failure (returns s))"
    "prd s = PDone" "cons s = CDone"
    by (simp_all add: inv_group_def)
  from r(2) i(7) assms(2) have "(Producer, Some e) \<in> set (returns s)"
    by (simp add: inv_logged_def)
  from first_failure_exists [OF this] r(1) have 1: "r \<noteq> None" by auto
  have cr: "cons_recv s = []"
    using i(3) assms(1) by (simp add: inv_chan_def)
  from r(3) i(7) obtain rc where rc: "(Consumer, rc) \<in> set (returns s)"
    by (auto simp: inv_logged_def)
  with i(8) cr have "rc = Some no_content" by (simp add: inv_resp_def)
  with rc i(8) have 2: "response s = []" by (auto simp: inv_resp_def)
  have 3: "r = Some e \<and> respond s r = [JSON (error_status e) [e]]"
    if "returns s = (Producer, Some e) # rs" for rs
    using that r(1) 2 by (simp add: respond_error)
  from 1 2 3 show ?thesis by blast
qed

theorem early_parse_failure_witness:
  "frames cfg_truncated = [] \<and> parse_result cfg_truncated = Some (ErrorString ''unexpected EOF'') \<and>
   run cfg_truncated [Close, ProdReturn, ConsClosed, ConsReturn, Wait] (init cfg_truncated) =
     Some (st_done (Some (ErrorString ''unexpected EOF'')) DNone [] [] []
       [(Producer, Some (ErrorString ''unexpected EOF'')), (Consumer, Some no_content)] 0) \<and>
   respond (st_done (Some (ErrorString ''unexpected EOF'')) DNone [] [] []
       [(Producer, Some (ErrorString ''unexpected EOF'')), (Consumer, Some no_content)] 0)
     (Some (ErrorString ''unexpected EOF'')) = [JSON 500 [ErrorString ''unexpected EOF'']]"
proof -
  have f: "frames cfg_truncated = []"
    and p: "parse_result cfg_truncated = Some (ErrorString ''unexpected EOF'')"
    by (simp_all add: cfg_truncated_def)
  have h: "run cfg_truncated [Close, ProdReturn, ConsClosed, ConsReturn, Wait]
       (init cfg_truncated) =
     Some (st_done (Some (ErrorString ''unexpected EOF'')) DNone [] [] []
       [(Producer, Some (ErrorString ''unexpected EOF'')), (Consumer, Some no_content)] 0)"
    by (simp add: eval_defs)
  have w: "waited (st_done (Some (ErrorString ''unexpected EOF'')) DNone [] [] []
       [(Producer, Some (ErrorString ''unexpected EOF'')), (Consumer, Some no_content)] 0) =
     Some (Some (ErrorString ''unexpected EOF''))"
    by (simp add: st_done_def)
  from early_parse_failure [OF f p h w] f p h show ?thesis
    by (simp add: st_done_def StatusInternalServerError_def)
qed




text \<open>
  C9. The claim: the drain loop of src/main.go and the one of src/unnamed/part_000 behave
  alike; both return success when the channel is closed and the context is not done.
  The loop of src/main.go returns \<^verbatim>\<open>nil\<close> at the first receive from the closed
  channel. The loop of part_000 ignores \<^verbatim>\<open>ok\<close>: whatever it receives, frames or the
  zero values of a closed channel, it goes round again, and only \<^verbatim>\<open>c.Done()\<close> ends
  it.
\<close>

theorem part000_drain_ignores_close:
  "drain_loop drain_body (Recv None # cs) = Returned None \<and>
   drain_loop drain_body_part000 (map Recv vs) = Looping"
  by (induction vs) auto

end
